theory Spec2Isabelle
  imports Main "HOL-Library.Word"
begin

unbundle bit_operations_syntax

section \<open>Shell quoting (os-exec.hh, lines 48-74)\<close>

text \<open>
  A \<open>std::string_view\<close> is a sequence of bytes: a \<open>string\<close> (list of 8-bit \<open>char\<close>).
  The two bytes the quoting is about are written by their codes, since neither can stand
  inside a string literal here.
\<close>

definition apostrophe :: char where
  "apostrophe = CHR 0x27"

definition backslash :: char where
  "backslash = CHR 0x5C"

text \<open>
  \<open>std::string_view::find(c)\<close>: the index of the first occurrence of \<open>c\<close>, or
  \<open>npos\<close> (here \<open>None\<close>).
\<close>

fun find_chr :: "char \<Rightarrow> string \<Rightarrow> nat option" where
  "find_chr c [] = None"
| "find_chr c (x # xs) = (if x = c then Some 0 else map_option Suc (find_chr c xs))"

text \<open>
  \<open>std::isalnum\<close> in the default "C" locale: the ASCII digits and letters. Bytes from
  0x80 on are not alphanumeric there.
\<close>

definition isalnum :: "char \<Rightarrow> bool" where
  "isalnum c =
     (let n = (of_char c :: nat)
      in (48 \<le> n \<and> n \<le> 57) \<or> (65 \<le> n \<and> n \<le> 90) \<or> (97 \<le> n \<and> n \<le> 122))"

text \<open>The lambda of line 57.\<close>

definition is_safe_char :: "char \<Rightarrow> bool" where
  "is_safe_char c = (isalnum c \<or> find_chr c ''@%+=:,./-_'' \<noteq> None)"

text \<open>
  The loop of lines 65-70 on its two variables, \<open>retval\<close> and \<open>value\<close>: while
  \<open>value\<close> holds an apostrophe at index \<open>quote\<close>, append \<open>value[0..quote)\<close> and
  backslash-apostrophe to \<open>retval\<close> and drop \<open>quote + 1\<close> bytes of \<open>value\<close>.
\<close>

lemma find_chr_less: "find_chr c v = Some q \<Longrightarrow> q < length v"
  by (induction v arbitrary: q) (auto split: if_splits)

function quote_loop :: "string \<Rightarrow> string \<Rightarrow> string \<times> string" where
  "quote_loop retval v =
     (case find_chr apostrophe v of
        Some quote \<Rightarrow>
          quote_loop (retval @ take quote v @ [backslash, apostrophe]) (drop (quote + 1) v)
      | None \<Rightarrow> (retval, v))"
  by pat_completeness auto
termination
  by (relation "measure (\<lambda>(retval, v). length v)") (auto dest: find_chr_less)

definition shell_quote :: "string \<Rightarrow> string" where
  "shell_quote v =
     (if v = [] then [apostrophe, apostrophe]
      else
        let is_safe = list_all is_safe_char v in
        if is_safe then v
        else
          let retval = [apostrophe];
              (retval, v) = quote_loop retval v;
              retval = (if v \<noteq> [] then retval @ v else retval)
          in retval @ [apostrophe])"

text \<open>
  The transform in the words of the specification, to compare the loop with: every
  apostrophe replaced by backslash-apostrophe.
\<close>

definition escape_apostrophes :: "string \<Rightarrow> string" where
  "escape_apostrophes v = concat (map (\<lambda>c. if c = apostrophe then [backslash, apostrophe] else [c]) v)"

section \<open>Error taxonomy (lines 19-46)\<close>

text \<open>
  A C \<open>int\<close> is modelled as an \<open>int\<close>: the library does no arithmetic on the payloads
  it passes on, so nothing can overflow. \<open>std::to_string(int)\<close> prints the decimal
  digits, after a minus sign for a negative value.
\<close>

definition digit :: "nat \<Rightarrow> char" where
  "digit d = char_of (48 + d)"

fun decimal :: "nat \<Rightarrow> string" where
  "decimal n = (if n < 10 then [digit n] else decimal (n div 10) @ [digit (n mod 10)])"

declare decimal.simps [simp del]

definition to_string :: "int \<Rightarrow> string" where
  "to_string i = (if i < 0 then CHR ''-'' # decimal (nat (- i)) else decimal (nat i))"

text \<open>The four structs derived from \<open>std::error_category\<close>, with their two overrides.\<close>

datatype domain = Non_Zero_Exit_Code | Killed_By_Signal | Stopped_By_Signal | Unknown_Termination_Cause

fun name :: "domain \<Rightarrow> string" where
  "name Non_Zero_Exit_Code = ''Non_Zero_Exit_Code''"
| "name Killed_By_Signal = ''Killed_By_Signal''"
| "name Stopped_By_Signal = ''Stopped_By_Signal''"
| "name Unknown_Termination_Cause = ''Unknown_Termination_Cause''"

fun message :: "domain \<Rightarrow> int \<Rightarrow> string" where
  "message Non_Zero_Exit_Code v = ''exit status '' @ to_string v"
| "message Killed_By_Signal v = ''killed by signal '' @ to_string v"
| "message Stopped_By_Signal v = ''stopped by signal '' @ to_string v"
| "message Unknown_Termination_Cause v = ''unknown termination cause''"

text \<open>
  The categories a \<open>std::error_code\<close> of this library refers to: the two of the
  standard library and the singletons of lines 43-46.
\<close>

datatype error_category = system_category | generic_category | singleton domain

definition non_zero_exit_code :: error_category where
  "non_zero_exit_code = singleton Non_Zero_Exit_Code"

definition killed_by_signal :: error_category where
  "killed_by_signal = singleton Killed_By_Signal"

definition stopped_by_signal :: error_category where
  "stopped_by_signal = singleton Stopped_By_Signal"

definition unknown_termination_cause :: error_category where
  "unknown_termination_cause = singleton Unknown_Termination_Cause"

record error_code =
  ec_value :: int
  ec_category :: error_category

text \<open>
  \<open>std::make_error_code((std::errc)e)\<close>: the value \<open>e\<close> in the generic category.
  \<open>return {}\<close> is the default \<open>std::error_code\<close>: value 0 in the system category.
\<close>

definition make_error_code :: "int \<Rightarrow> error_code" where
  "make_error_code e = \<lparr>ec_value = e, ec_category = generic_category\<rparr>"

definition ok :: error_code where
  "ok = \<lparr>ec_value = 0, ec_category = system_category\<rparr>"

section \<open>The operating system\<close>

text \<open>
  Pointers are 64-bit addresses; \<open>MAP_FAILED\<close> is \<open>(void *) -1\<close>.
\<close>

type_synonym ptr = "64 word"

definition nullptr :: ptr where
  "nullptr = 0"

definition MAP_FAILED :: ptr where
  "MAP_FAILED = - 1"

text \<open>
  The status macros of \<open><sys/wait.h>\<close> belong to the C library, not to this
  repository: \<open>run\<close> takes them as a parameter.
\<close>

record wait_macros =
  WIFEXITED :: "int \<Rightarrow> bool"
  WEXITSTATUS :: "int \<Rightarrow> int"
  WIFSIGNALED :: "int \<Rightarrow> bool"
  WTERMSIG :: "int \<Rightarrow> int"
  WIFSTOPPED :: "int \<Rightarrow> bool"
  WSTOPSIG :: "int \<Rightarrow> int"

text \<open>
  One instance, to evaluate \<open>run\<close> on concrete wait statuses: the encoding of Linux
  (glibc's \<open>bits/waitstatus.h\<close>), where the low seven bits hold the terminating signal
  (0 for a normal exit, 0x7f for a stop) and bits 8-15 the exit code or the stop signal.
\<close>

definition linux_wait :: wait_macros where
  "linux_wait =
     \<lparr>WIFEXITED = (\<lambda>s. s AND 0x7f = 0),
      WEXITSTATUS = (\<lambda>s. drop_bit 8 (s AND 0xff00)),
      WIFSIGNALED = (\<lambda>s. 0 < drop_bit 1 (signed_take_bit 7 ((s AND 0x7f) + 1))),
      WTERMSIG = (\<lambda>s. s AND 0x7f),
      WIFSTOPPED = (\<lambda>s. s AND 0xff = 0x7f),
      WSTOPSIG = (\<lambda>s. drop_bit 8 (s AND 0xff00))\<rparr>"

text \<open>
  What the operating system answers during one call of \<open>run\<close>: the results of
  \<open>mmap\<close>, \<open>fork\<close> and \<open>waitpid\<close> with the \<open>errno\<close> each sets when it fails,
  and what \<open>execlp\<close> does in the child: replace the process image, or return a value
  with \<open>errno\<close> set.
\<close>

datatype exec_answer = Image_Replaced | Exec_Returns int int

record os =
  mmap_ret :: ptr
  mmap_errno :: int
  fork_ret :: int
  fork_errno :: int
  execlp_ret :: exec_answer
  waitpid_ret :: int
  waitpid_errno :: int
  waitpid_wstatus :: int

text \<open>
  The state a process works on: the shared anonymous mappings with their content (one
  \<open>int\<close> cell each, seen by parent and child alike), \<open>errno\<close>, the text written to
  \<open>std::cout\<close>, and the system calls made so far.
\<close>

datatype event = Mmap nat | Munmap ptr nat | Fork | Waitpid int

record proc =
  shm :: "ptr \<rightharpoonup> int"
  errno :: int
  cout :: string
  calls :: "event list"

definition mmap :: "os \<Rightarrow> nat \<Rightarrow> proc \<Rightarrow> ptr \<times> proc" where
  "mmap os len st =
     (if mmap_ret os = MAP_FAILED
      then (MAP_FAILED, st\<lparr>errno := mmap_errno os, calls := calls st @ [Mmap len]\<rparr>)
      else (mmap_ret os, st\<lparr>shm := (shm st)(mmap_ret os \<mapsto> 0), calls := calls st @ [Mmap len]\<rparr>))"

definition munmap :: "ptr \<Rightarrow> nat \<Rightarrow> proc \<Rightarrow> proc" where
  "munmap p len st = st\<lparr>shm := (shm st)(p := None), calls := calls st @ [Munmap p len]\<rparr>"

definition fork :: "os \<Rightarrow> proc \<Rightarrow> int \<times> proc" where
  "fork os st =
     (fork_ret os,
      st\<lparr>errno := (if fork_ret os < 0 then fork_errno os else errno st),
         calls := calls st @ [Fork]\<rparr>)"

definition waitpid :: "os \<Rightarrow> int \<Rightarrow> proc \<Rightarrow> int \<times> int \<times> proc" where
  "waitpid os pid st =
     (waitpid_ret os, waitpid_wstatus os,
      st\<lparr>errno := (if waitpid_ret os < 0 then waitpid_errno os else errno st),
         calls := calls st @ [Waitpid pid]\<rparr>)"

text \<open>
  Reading and writing an \<open>int\<close> through a pointer: outside a live mapping the process
  gets a segmentation fault (\<open>None\<close>).
\<close>

definition load :: "ptr \<Rightarrow> proc \<Rightarrow> int option" where
  "load p st = shm st p"

definition store :: "ptr \<Rightarrow> int \<Rightarrow> proc \<Rightarrow> proc option" where
  "store p v st = (if p \<in> dom (shm st) then Some (st\<lparr>shm := (shm st)(p \<mapsto> v)\<rparr>) else None)"

section \<open>Running a program (lines 76-126)\<close>

text \<open>
  How the execution of \<open>run\<close> ends in a process: it returns an outcome (the parent), the
  process image is replaced by the program, the process exits, the assertion of line 106
  fails, or an access outside a mapping stops the process.
\<close>

datatype ending = Returns error_code | Execed | Exits int | Assert_Fails | Segfault

text \<open>
  The local struct of lines 85-89 and its destructor. The length it passes to
  \<open>munmap\<close> is \<open>sizeof(value)\<close>, the size of the pointer (8), where \<open>mmap\<close> was
  asked for the size of an \<open>int\<close> (4); mappings are made and removed by whole pages,
  so either length removes the mapping of the cell.
\<close>

record Exec_Failure =
  val :: ptr

definition Exec_Failure_dtor :: "Exec_Failure \<Rightarrow> proc \<Rightarrow> proc" where
  "Exec_Failure_dtor exec_failure st =
     (if val exec_failure \<noteq> nullptr then munmap (val exec_failure) 8 st else st)"

text \<open>
  A \<open>return\<close> of \<open>run\<close>: the result is built first, then \<open>exec_failure\<close> goes out of
  scope and its destructor runs.
\<close>

definition return_run :: "Exec_Failure \<Rightarrow> error_code \<Rightarrow> proc \<Rightarrow> ending \<times> proc" where
  "return_run exec_failure r st = (Returns r, Exec_Failure_dtor exec_failure st)"

text \<open>
  The child, lines 102-106. It starts on a copy of the parent's state; its stores to the
  shared mapping are the ones the parent sees.
\<close>

definition child :: "string \<Rightarrow> string list \<Rightarrow> os \<Rightarrow> Exec_Failure \<Rightarrow> proc \<Rightarrow> ending \<times> proc" where
  "child program args os exec_failure st =
     (case execlp_ret os of
        Image_Replaced \<Rightarrow> (Execed, st)
      | Exec_Returns r e \<Rightarrow>
          let st = st\<lparr>errno := e\<rparr> in
          if r < 0 then
            (case store (val exec_failure) (errno st) st of
               None \<Rightarrow> (Segfault, st)
             | Some st \<Rightarrow> (Exits 1, st))
          else (Assert_Fails, st))"

text \<open>
  Lines 85-113: allocation, fork, the child, and the parent's wait. The result is either
  the end of \<open>run\<close> in this process (\<open>Inl\<close>), or the state in which the parent goes
  on to line 115 (\<open>Inr\<close>): the struct, the wait status and the process state. By the
  time \<open>waitpid\<close> returns, the child has run, and the shared mapping holds what the
  child stored.
\<close>

definition run_spawn ::
  "string \<Rightarrow> string list \<Rightarrow> os \<Rightarrow> proc \<Rightarrow> (ending \<times> proc) + (Exec_Failure \<times> int \<times> proc)" where
  "run_spawn program args os st =
     (let exec_failure = \<lparr>val = nullptr\<rparr>;
          (ptr, st) = mmap os 4 st
      in
        if ptr \<noteq> MAP_FAILED then
          let exec_failure = exec_failure\<lparr>val := ptr\<rparr> in
          (case store (val exec_failure) 0 st of
             None \<Rightarrow> Inl (Segfault, st)
           | Some st \<Rightarrow>
               let (pid, st) = fork os st in
               if pid < 0 then Inl (return_run exec_failure (make_error_code (errno st)) st)
               else if pid = 0 then Inl (child program args os exec_failure st)
               else
                 let st = st\<lparr>shm := shm (snd (child program args os exec_failure st))\<rparr>;
                     (r, wstatus, st) = waitpid os pid st
                 in
                   if r < 0 then Inl (return_run exec_failure (make_error_code (errno st)) st)
                   else Inr (exec_failure, wstatus, st))
        else Inl (return_run exec_failure (make_error_code (errno st)) st))"

text \<open>Lines 115-125: the channel first, then the wait status.\<close>

definition run_interpret :: "wait_macros \<Rightarrow> Exec_Failure \<Rightarrow> int \<Rightarrow> proc \<Rightarrow> ending \<times> proc" where
  "run_interpret W exec_failure wstatus st =
     (case load (val exec_failure) st of
        None \<Rightarrow> (Segfault, st)
      | Some v \<Rightarrow>
          if v \<noteq> 0 then return_run exec_failure (make_error_code v) st
          else if WIFEXITED W wstatus then
            (let exit_code = WEXITSTATUS W wstatus in
             if exit_code = 0 then return_run exec_failure ok st
             else return_run exec_failure
                    \<lparr>ec_value = exit_code, ec_category = non_zero_exit_code\<rparr> st)
          else if WIFSIGNALED W wstatus then
            return_run exec_failure
              \<lparr>ec_value = WTERMSIG W wstatus, ec_category = killed_by_signal\<rparr> st
          else if WIFSTOPPED W wstatus then
            return_run exec_failure
              \<lparr>ec_value = WSTOPSIG W wstatus, ec_category = stopped_by_signal\<rparr> st
          else return_run exec_failure
                 \<lparr>ec_value = 1, ec_category = unknown_termination_cause\<rparr> st)"

definition run :: "wait_macros \<Rightarrow> string \<Rightarrow> string list \<Rightarrow> os \<Rightarrow> proc \<Rightarrow> ending \<times> proc" where
  "run W program args os st =
     (case run_spawn program args os st of
        Inl end_of_run \<Rightarrow> end_of_run
      | Inr (exec_failure, wstatus, st) \<Rightarrow> run_interpret W exec_failure wstatus st)"

section \<open>Echoing the command (lines 128-136)\<close>




section \<open>Vocabulary of the properties\<close>

text \<open>The releases among the system calls of a process.\<close>

fun is_munmap :: "event \<Rightarrow> bool" where
  "is_munmap (Munmap p len) = True"
| "is_munmap _ = False"

definition releases :: "event list \<Rightarrow> event list" where
  "releases evs = filter is_munmap evs"

text \<open>
  POSIX on \<open>execlp\<close>: it returns only when it has failed, and then a negative value
  (-1), with \<open>errno\<close> set.
\<close>

fun posix_execlp :: "exec_answer \<Rightarrow> bool" where
  "posix_execlp Image_Replaced = True"
| "posix_execlp (Exec_Returns r e) = (r < 0)"

text \<open>
  What the child leaves in the channel when it has run lines 102-106: the \<open>errno\<close> of
  a failed \<open>execlp\<close>, or the 0 of line 92.
\<close>

definition channel :: "os \<Rightarrow> int" where
  "channel os =
     (case execlp_ret os of
        Image_Replaced \<Rightarrow> 0
      | Exec_Returns r e \<Rightarrow> if r < 0 then e else 0)"

text \<open>
  Reading a decimal numeral back, to say what the \<open><n>\<close> of a message is.
\<close>

definition digit_value :: "char \<Rightarrow> nat" where
  "digit_value c = of_char c - 48"

definition decimal_value :: "string \<Rightarrow> nat" where
  "decimal_value s = foldl (\<lambda>acc c. 10 * acc + digit_value c) 0 s"

definition read_int :: "string \<Rightarrow> int" where
  "read_int s =
     (case s of
        [] \<Rightarrow> 0
      | c # cs \<Rightarrow> if c = CHR ''-'' then - int (decimal_value cs) else int (decimal_value s))"

text \<open>
  A concrete call, for evaluating the model: a process that has made no system call yet,
  and an operating system where every call succeeds, the program is executed and exits
  with status 0 (wait status 0).
\<close>

definition fresh :: proc where
  "fresh = \<lparr>shm = Map.empty, errno = 0, cout = [], calls = []\<rparr>"

definition all_fine :: os where
  "all_fine =
     \<lparr>mmap_ret = 0x7f0000001000, mmap_errno = 0,
      fork_ret = 1234, fork_errno = 0,
      execlp_ret = Image_Replaced,
      waitpid_ret = 1234, waitpid_errno = 0, waitpid_wstatus = 0\<rparr>"

section \<open>Properties of shell quoting\<close>

lemma find_chr_None: "find_chr c v = None \<longleftrightarrow> c \<notin> set v"
  by (induction v) auto

lemma find_chr_Some:
  "find_chr c v = Some q \<Longrightarrow> v = take q v @ c # drop (Suc q) v \<and> c \<notin> set (take q v)"
  by (induction v arbitrary: q) (auto split: if_splits)

lemma escape_apostrophes_append:
  "escape_apostrophes (xs @ ys) = escape_apostrophes xs @ escape_apostrophes ys"
  by (simp add: escape_apostrophes_def)

lemma escape_apostrophes_id: "apostrophe \<notin> set v \<Longrightarrow> escape_apostrophes v = v"
  by (induction v) (auto simp: escape_apostrophes_def)

lemma quote_loop_escapes:
  "quote_loop retval v = (r, w) \<Longrightarrow> r @ w = retval @ escape_apostrophes v"
proof (induction retval v arbitrary: r w rule: quote_loop.induct)
  case (1 retval v)
  show ?case
  proof (cases "find_chr apostrophe v")
    case None
    then have "apostrophe \<notin> set v" by (simp add: find_chr_None)
    with None "1.prems" show ?thesis by (simp add: escape_apostrophes_id)
  next
    case (Some q)
    from find_chr_Some [OF Some]
    have split: "v = take q v @ apostrophe # drop (Suc q) v"
      and pre: "apostrophe \<notin> set (take q v)" by simp_all
    from Some "1.prems"
    have "quote_loop (retval @ take q v @ [backslash, apostrophe]) (drop (q + 1) v) = (r, w)"
      by simp
    from "1.IH" [OF Some this]
    have "r @ w = (retval @ take q v @ [backslash, apostrophe]) @ escape_apostrophes (drop (q + 1) v)" .
    moreover have "escape_apostrophes v =
        take q v @ [backslash, apostrophe] @ escape_apostrophes (drop (Suc q) v)"
    proof -
      have "escape_apostrophes v = escape_apostrophes (take q v @ [apostrophe] @ drop (Suc q) v)"
        using split by simp
      also have "\<dots> = escape_apostrophes (take q v) @ escape_apostrophes [apostrophe]
                       @ escape_apostrophes (drop (Suc q) v)"
        by (simp only: escape_apostrophes_append)
      also have "\<dots> = take q v @ [backslash, apostrophe] @ escape_apostrophes (drop (Suc q) v)"
        using pre by (simp add: escape_apostrophes_id) (simp add: escape_apostrophes_def)
      finally show ?thesis .
    qed
    ultimately show ?thesis by simp
  qed
qed

lemma shell_quote_unsafe:
  assumes "v \<noteq> []" and "\<not> list_all is_safe_char v"
  shows "shell_quote v = [apostrophe] @ escape_apostrophes v @ [apostrophe]"
proof -
  obtain r w where rw: "quote_loop [apostrophe] v = (r, w)" by (cases "quote_loop [apostrophe] v")
  from quote_loop_escapes [OF rw] have "r @ w = [apostrophe] @ escape_apostrophes v" .
  then have "(if w \<noteq> [] then r @ w else r) = [apostrophe] @ escape_apostrophes v"
    by (cases "w = []") simp_all
  with assms rw show ?thesis by (simp add: shell_quote_def)
qed

lemma shell_quote_safe:
  assumes "v \<noteq> []" and "list_all is_safe_char v"
  shows "shell_quote v = v"
  using assms by (simp add: shell_quote_def)

lemma shell_quote_empty: "shell_quote [] = [apostrophe, apostrophe]"
  by (simp add: shell_quote_def)

lemma is_safe_char_simps:
  "is_safe_char c \<longleftrightarrow>
     (48 \<le> (of_char c :: nat) \<and> (of_char c :: nat) \<le> 57) \<or>
     (65 \<le> (of_char c :: nat) \<and> (of_char c :: nat) \<le> 90) \<or>
     (97 \<le> (of_char c :: nat) \<and> (of_char c :: nat) \<le> 122) \<or>
     c \<in> set ''@%+=:,./-_''"
  by (simp only: is_safe_char_def isalnum_def Let_def find_chr_None) auto

text \<open>
  C4. The claim: for every byte string all of whose bytes are alphanumeric or in the safe
  set, the empty string included, \<open>shell_quote\<close> returns the string byte for byte.
  It fails at the empty string, which line 54 tests first and turns into two apostrophes.
\<close>

theorem shell_quote_safe_empty_counterexample:
  "list_all is_safe_char [] \<and> shell_quote [] \<noteq> []"
  by (simp add: shell_quote_def)

text \<open>
  C4, amended. For every non-empty byte string all of whose bytes are alphanumeric or
  in the safe set, \<open>shell_quote\<close> returns the string byte for byte.
\<close>

theorem shell_quote_safe_verbatim:
  "v \<noteq> [] \<Longrightarrow> list_all is_safe_char v \<Longrightarrow> shell_quote v = v"
  by (rule shell_quote_safe)

theorem shell_quote_safe_verbatim_witness:
  "''a-Z_0.9/@'' \<noteq> [] \<and> list_all is_safe_char ''a-Z_0.9/@''
     \<and> shell_quote ''a-Z_0.9/@'' = ''a-Z_0.9/@''"
proof -
  have h1: "''a-Z_0.9/@'' \<noteq> []" by simp
  have h2: "list_all is_safe_char ''a-Z_0.9/@''" by (simp add: is_safe_char_simps)
  show ?thesis using h1 h2 shell_quote_safe_verbatim [OF h1 h2] by simp
qed

text \<open>
  C5. For every non-empty byte string with at least one byte outside the safe set,
  \<open>shell_quote\<close> gives the string with every apostrophe replaced by
  backslash-apostrophe, between one pair of apostrophes; and the four examples of the
  specification: \<open>hello\<close>, \<open>a b\<close>, \<open>it's\<close> and the empty string.
\<close>

theorem shell_quote_escapes:
  "(v \<noteq> [] \<and> \<not> list_all is_safe_char v \<longrightarrow>
      shell_quote v = [apostrophe] @ escape_apostrophes v @ [apostrophe])
   \<and> shell_quote ''hello'' = ''hello''
   \<and> shell_quote ''a b'' = [apostrophe] @ ''a b'' @ [apostrophe]
   \<and> shell_quote (''it'' @ [apostrophe] @ ''s'')
       = [apostrophe] @ ''it'' @ [backslash, apostrophe] @ ''s'' @ [apostrophe]
   \<and> shell_quote [] = [apostrophe, apostrophe]"
proof -
  have general: "v \<noteq> [] \<and> \<not> list_all is_safe_char v \<longrightarrow>
      shell_quote v = [apostrophe] @ escape_apostrophes v @ [apostrophe]"
    by (simp add: shell_quote_unsafe)
  have hello: "shell_quote ''hello'' = ''hello''"
    by (rule shell_quote_safe) (simp_all add: is_safe_char_simps)
  have "\<not> list_all is_safe_char ''a b''"
    by (simp add: is_safe_char_simps)
  then have "shell_quote ''a b'' = [apostrophe] @ escape_apostrophes ''a b'' @ [apostrophe]"
    by (intro shell_quote_unsafe) simp_all
  then have a_b: "shell_quote ''a b'' = [apostrophe] @ ''a b'' @ [apostrophe]"
    by (simp add: escape_apostrophes_def apostrophe_def)
  have "\<not> list_all is_safe_char (''it'' @ [apostrophe] @ ''s'')"
    by (simp add: is_safe_char_simps apostrophe_def)
  then have "shell_quote (''it'' @ [apostrophe] @ ''s'')
      = [apostrophe] @ escape_apostrophes (''it'' @ [apostrophe] @ ''s'') @ [apostrophe]"
    by (intro shell_quote_unsafe) simp_all
  then have its: "shell_quote (''it'' @ [apostrophe] @ ''s'')
      = [apostrophe] @ ''it'' @ [backslash, apostrophe] @ ''s'' @ [apostrophe]"
    by (simp add: escape_apostrophes_def apostrophe_def)
  from general hello a_b its shell_quote_empty show ?thesis by blast
qed

theorem shell_quote_escapes_witness:
  "''a'' @ [apostrophe] @ '' b'' \<noteq> []
   \<and> \<not> list_all is_safe_char (''a'' @ [apostrophe] @ '' b'')
   \<and> shell_quote (''a'' @ [apostrophe] @ '' b'')
       = [apostrophe] @ ''a'' @ [backslash, apostrophe] @ '' b'' @ [apostrophe]"
proof -
  have h: "''a'' @ [apostrophe] @ '' b'' \<noteq> []
      \<and> \<not> list_all is_safe_char (''a'' @ [apostrophe] @ '' b'')"
    by (simp add: is_safe_char_simps apostrophe_def)
  from shell_quote_escapes [of "''a'' @ [apostrophe] @ '' b''"] h
  have "shell_quote (''a'' @ [apostrophe] @ '' b'')
      = [apostrophe] @ escape_apostrophes (''a'' @ [apostrophe] @ '' b'') @ [apostrophe]"
    by blast
  with h show ?thesis by (simp add: escape_apostrophes_def apostrophe_def)
qed

section \<open>Properties of the error taxonomy\<close>

lemma digit_value_digit: "d < 10 \<Longrightarrow> digit_value (digit d) = d"
  by (simp add: digit_value_def digit_def)

lemma decimal_value_snoc: "decimal_value (s @ [c]) = 10 * decimal_value s + digit_value c"
  by (simp add: decimal_value_def)

lemma decimal_value_decimal: "decimal_value (decimal n) = n"
proof (induction n rule: decimal.induct)
  case (1 n)
  show ?case
  proof (cases "n < 10")
    case True
    then show ?thesis
      by (simp add: decimal.simps [of n] decimal_value_def digit_value_digit)
  next
    case False
    then have "decimal_value (decimal n) = 10 * decimal_value (decimal (n div 10)) + digit_value (digit (n mod 10))"
      by (simp add: decimal.simps [of n] decimal_value_snoc)
    also have "\<dots> = 10 * (n div 10) + n mod 10"
      using False "1.IH" by (simp add: digit_value_digit)
    finally show ?thesis by simp
  qed
qed

lemma decimal_hd: "\<exists>d cs. d < 10 \<and> decimal n = digit d # cs"
proof (induction n rule: decimal.induct)
  case (1 n)
  show ?case
  proof (cases "n < 10")
    case True
    then show ?thesis by (auto simp: decimal.simps [of n])
  next
    case False
    with "1.IH" obtain d cs where "d < 10" "decimal (n div 10) = digit d # cs" by blast
    with False show ?thesis by (auto simp: decimal.simps [of n])
  qed
qed

lemma digit_not_minus: "d < 10 \<Longrightarrow> digit d \<noteq> CHR ''-''"
proof
  assume "d < 10" and "digit d = CHR ''-''"
  then have "(of_char (digit d) :: nat) = of_char (CHR ''-'')" by simp
  with \<open>d < 10\<close> show False by (simp add: digit_def)
qed

lemma read_int_to_string: "read_int (to_string i) = i"
proof (cases "i < 0")
  case True
  then show ?thesis by (simp add: read_int_def to_string_def decimal_value_decimal)
next
  case False
  obtain d cs where d: "d < 10" "decimal (nat i) = digit d # cs" using decimal_hd by blast
  have "int (decimal_value (decimal (nat i))) = i" using False by (simp add: decimal_value_decimal)
  with False d digit_not_minus [OF d(1)] show ?thesis
    by (simp add: read_int_def to_string_def)
qed

text \<open>
  C7. Each of the four library-defined error domains reports the name and the message of
  the specification's table: \<open>exit status <n>\<close>, \<open>killed by signal <n>\<close>,
  \<open>stopped by signal <n>\<close>, and the fixed text \<open>unknown termination cause\<close> for
  every payload; \<open><n>\<close> is the payload in decimal notation.
\<close>

theorem error_domains:
  "name Non_Zero_Exit_Code = ''Non_Zero_Exit_Code''
   \<and> message Non_Zero_Exit_Code n = ''exit status '' @ to_string n
   \<and> name Killed_By_Signal = ''Killed_By_Signal''
   \<and> message Killed_By_Signal n = ''killed by signal '' @ to_string n
   \<and> name Stopped_By_Signal = ''Stopped_By_Signal''
   \<and> message Stopped_By_Signal n = ''stopped by signal '' @ to_string n
   \<and> name Unknown_Termination_Cause = ''Unknown_Termination_Cause''
   \<and> message Unknown_Termination_Cause n = ''unknown termination cause''
   \<and> read_int (to_string n) = n"
  by (simp add: read_int_to_string)

lemma to_string_42: "to_string 42 = ''42''"
  by code_simp

lemma to_string_minus_9: "to_string (- 9) = ''-9''"
  by code_simp

theorem error_domains_witness:
  "message Non_Zero_Exit_Code 42 = ''exit status 42''
   \<and> message Killed_By_Signal 42 = ''killed by signal 42''
   \<and> message Stopped_By_Signal 42 = ''stopped by signal 42''
   \<and> message Unknown_Termination_Cause 42 = ''unknown termination cause''
   \<and> message Non_Zero_Exit_Code (- 9) = ''exit status -9''"
  using error_domains [of 42] error_domains [of "- 9"]
  by (simp add: to_string_42 to_string_minus_9)

section \<open>Properties of run\<close>

lemmas sys_defs = mmap_def munmap_def fork_def waitpid_def load_def store_def

text \<open>The paths of lines 85-113, one lemma each.\<close>

lemma run_spawn_mmap_failed:
  assumes "mmap_ret os = MAP_FAILED"
  shows "run_spawn program args os st =
     Inl (Returns (make_error_code (mmap_errno os)),
          st\<lparr>errno := mmap_errno os, calls := calls st @ [Mmap 4]\<rparr>)"
  using assms
  by (simp add: run_spawn_def mmap_def return_run_def Exec_Failure_dtor_def)

lemma run_spawn_fork_failed:
  assumes "mmap_ret os \<noteq> MAP_FAILED" and "fork_ret os < 0"
  shows "run_spawn program args os st =
     Inl (Returns (make_error_code (fork_errno os)),
          Exec_Failure_dtor \<lparr>val = mmap_ret os\<rparr>
            (st\<lparr>shm := (shm st)(mmap_ret os \<mapsto> 0), errno := fork_errno os,
                calls := calls st @ [Mmap 4, Fork]\<rparr>))"
  using assms
  by (simp add: run_spawn_def sys_defs return_run_def)

lemma run_spawn_in_child:
  assumes "mmap_ret os \<noteq> MAP_FAILED" and "fork_ret os = 0"
  shows "run_spawn program args os st =
     Inl (child program args os \<lparr>val = mmap_ret os\<rparr>
            (st\<lparr>shm := (shm st)(mmap_ret os \<mapsto> 0), calls := calls st @ [Mmap 4, Fork]\<rparr>))"
  using assms
  by (simp add: run_spawn_def sys_defs)

lemma child_shm:
  assumes "shm st p = Some 0"
  shows "shm (snd (child program args os \<lparr>val = p\<rparr> st)) = (shm st)(p \<mapsto> channel os)"
  using assms
  by (cases "execlp_ret os") (auto simp: child_def store_def channel_def Let_def dom_def)

lemma run_spawn_wait_failed:
  assumes "mmap_ret os \<noteq> MAP_FAILED" and "0 < fork_ret os" and "waitpid_ret os < 0"
  shows "run_spawn program args os st =
     Inl (Returns (make_error_code (waitpid_errno os)),
          Exec_Failure_dtor \<lparr>val = mmap_ret os\<rparr>
            (st\<lparr>shm := (shm st)(mmap_ret os \<mapsto> channel os), errno := waitpid_errno os,
                calls := calls st @ [Mmap 4, Fork, Waitpid (fork_ret os)]\<rparr>))"
  using assms
  by (simp add: run_spawn_def sys_defs return_run_def child_shm)

lemma run_spawn_waited:
  assumes "mmap_ret os \<noteq> MAP_FAILED" and "0 < fork_ret os" and "\<not> waitpid_ret os < 0"
  shows "run_spawn program args os st =
     Inr (\<lparr>val = mmap_ret os\<rparr>, waitpid_wstatus os,
          st\<lparr>shm := (shm st)(mmap_ret os \<mapsto> channel os),
             calls := calls st @ [Mmap 4, Fork, Waitpid (fork_ret os)]\<rparr>)"
  using assms
  by (simp add: run_spawn_def sys_defs return_run_def child_shm)

lemma run_spawn_Inr:
  assumes "run_spawn program args os st = Inr (exec_failure, wstatus, st')"
  shows "mmap_ret os \<noteq> MAP_FAILED \<and> 0 < fork_ret os \<and> \<not> waitpid_ret os < 0
         \<and> exec_failure = \<lparr>val = mmap_ret os\<rparr> \<and> wstatus = waitpid_wstatus os
         \<and> st' = st\<lparr>shm := (shm st)(mmap_ret os \<mapsto> channel os),
                     calls := calls st @ [Mmap 4, Fork, Waitpid (fork_ret os)]\<rparr>"
proof -
  have a: "mmap_ret os \<noteq> MAP_FAILED"
    using assms run_spawn_mmap_failed [of os program args st] by auto
  have b: "\<not> fork_ret os < 0"
    using assms a run_spawn_fork_failed [of os program args st] by auto
  have c: "fork_ret os \<noteq> 0"
    using assms a run_spawn_in_child [of os program args st] by auto
  have d: "\<not> waitpid_ret os < 0"
    using assms a b c run_spawn_wait_failed [of os program args st] by auto
  from b c have e: "0 < fork_ret os" by simp
  from assms run_spawn_waited [OF a e d, of program args st] a d e
  show ?thesis by simp
qed

lemma returns_after_wait:
  assumes "load (val exec_failure) st = Some v"
  shows "\<exists>r. run_interpret W exec_failure wstatus st = (Returns r, Exec_Failure_dtor exec_failure st)"
  using assms by (simp add: run_interpret_def return_run_def Let_def)


lemma dtor_releases:
  assumes "p \<noteq> nullptr"
  shows "releases (calls (Exec_Failure_dtor \<lparr>val = p\<rparr> st)) = releases (calls st) @ [Munmap p 8]"
    and "shm (Exec_Failure_dtor \<lparr>val = p\<rparr> st) p = None"
  using assms by (simp_all add: Exec_Failure_dtor_def munmap_def releases_def)

text \<open>
  C1. When \<open>waitpid\<close> has succeeded and the exec-failure channel reads 0, the outcome
  of \<open>run\<close> is classified from the wait status in this order: a normal exit with code
  0 is OK; a normal exit with another code is NON_ZERO_EXIT with that code; else a
  termination by signal is KILLED_BY_SIGNAL with the signal number; else a stop is
  STOPPED_BY_SIGNAL with the signal number; otherwise UNKNOWN_TERMINATION with payload 1.
\<close>

theorem run_classifies_wait_status:
  assumes "run_spawn program args os st = Inr (exec_failure, wstatus, st')"
      and "load (val exec_failure) st' = Some 0"
  shows "wstatus = waitpid_wstatus os \<and> \<not> waitpid_ret os < 0
     \<and> fst (run W program args os st) = Returns
       (if WIFEXITED W wstatus then
          (if WEXITSTATUS W wstatus = 0 then ok
           else \<lparr>ec_value = WEXITSTATUS W wstatus, ec_category = non_zero_exit_code\<rparr>)
        else if WIFSIGNALED W wstatus then
          \<lparr>ec_value = WTERMSIG W wstatus, ec_category = killed_by_signal\<rparr>
        else if WIFSTOPPED W wstatus then
          \<lparr>ec_value = WSTOPSIG W wstatus, ec_category = stopped_by_signal\<rparr>
        else \<lparr>ec_value = 1, ec_category = unknown_termination_cause\<rparr>)"
  using assms run_spawn_Inr [OF assms(1)]
  by (simp add: run_def run_interpret_def return_run_def Let_def)

theorem run_classifies_wait_status_witness:
  "run_spawn ''sh'' [''-c'', ''exit 42''] (all_fine\<lparr>waitpid_wstatus := 0x2a00\<rparr>) fresh
     = Inr (\<lparr>val = 0x7f0000001000\<rparr>, 0x2a00,
            fresh\<lparr>shm := [0x7f0000001000 \<mapsto> 0], calls := [Mmap 4, Fork, Waitpid 1234]\<rparr>)
   \<and> load 0x7f0000001000 (fresh\<lparr>shm := [0x7f0000001000 \<mapsto> 0], calls := [Mmap 4, Fork, Waitpid 1234]\<rparr>) = Some 0
   \<and> fst (run linux_wait ''sh'' [''-c'', ''exit 42''] (all_fine\<lparr>waitpid_wstatus := 0x2a00\<rparr>) fresh)
       = Returns \<lparr>ec_value = 42, ec_category = non_zero_exit_code\<rparr>"
proof -
  let ?st' = "fresh\<lparr>shm := [0x7f0000001000 \<mapsto> 0], calls := [Mmap 4, Fork, Waitpid 1234]\<rparr>"
  have h1: "run_spawn ''sh'' [''-c'', ''exit 42''] (all_fine\<lparr>waitpid_wstatus := 0x2a00\<rparr>) fresh
     = Inr (\<lparr>val = 0x7f0000001000\<rparr>, 0x2a00, ?st')"
    by (simp add: run_spawn_def sys_defs child_def all_fine_def fresh_def MAP_FAILED_def)
  have h2: "load (val \<lparr>val = 0x7f0000001000\<rparr>) ?st' = Some 0"
    by (simp add: load_def)
  from run_classifies_wait_status [OF h1 h2, of linux_wait] h1 h2
  show ?thesis by (simp add: linux_wait_def)
qed


lemma run_after_wait:
  assumes "mmap_ret os \<noteq> MAP_FAILED" and "0 < fork_ret os" and "\<not> waitpid_ret os < 0"
  shows "run W program args os st =
     run_interpret W \<lparr>val = mmap_ret os\<rparr> (waitpid_wstatus os)
       (st\<lparr>shm := (shm st)(mmap_ret os \<mapsto> channel os),
           calls := calls st @ [Mmap 4, Fork, Waitpid (fork_ret os)]\<rparr>)"
  using assms by (simp add: run_def run_spawn_waited)

text \<open>
  C2. When \<open>execlp\<close> fails in the child (it returns a negative value with \<open>errno\<close>
  set; POSIX error numbers are not 0), the child stores \<open>errno\<close> and exits with
  status 1; when the parent's \<open>waitpid\<close> succeeds, \<open>run\<close> returns that \<open>errno\<close>
  as a host-OS error, whatever the wait status is.
\<close>

theorem exec_failure_reported:
  assumes "mmap_ret os \<noteq> MAP_FAILED" and "0 < fork_ret os"
      and "execlp_ret os = Exec_Returns r e" and "r < 0" and "e \<noteq> 0"
      and "\<not> waitpid_ret os < 0"
  shows "fst (child program args os \<lparr>val = mmap_ret os\<rparr>
                (st\<lparr>shm := (shm st)(mmap_ret os \<mapsto> 0), calls := calls st @ [Mmap 4, Fork]\<rparr>))
           = Exits 1
     \<and> fst (run W program args os st) = Returns (make_error_code e)"
  using assms
  by (simp add: run_after_wait run_interpret_def load_def channel_def return_run_def
        child_def store_def)

theorem exec_failure_reported_witness:
  "fst (run linux_wait ''this-binary-does-not-exist-xyzzy'' []
          (all_fine\<lparr>execlp_ret := Exec_Returns (- 1) 2, waitpid_wstatus := 0x100\<rparr>) fresh)
     = Returns \<lparr>ec_value = 2, ec_category = generic_category\<rparr>
   \<and> fst (run linux_wait ''this-binary-does-not-exist-xyzzy'' []
          (all_fine\<lparr>execlp_ret := Exec_Returns (- 1) 2, waitpid_wstatus := 9\<rparr>) fresh)
     = Returns \<lparr>ec_value = 2, ec_category = generic_category\<rparr>"
proof -
  let ?os = "all_fine\<lparr>execlp_ret := Exec_Returns (- 1) 2, waitpid_wstatus := 0x100\<rparr>"
  let ?os' = "all_fine\<lparr>execlp_ret := Exec_Returns (- 1) 2, waitpid_wstatus := 9\<rparr>"
  have h: "mmap_ret ?os \<noteq> MAP_FAILED" "0 < fork_ret ?os" "execlp_ret ?os = Exec_Returns (- 1) 2"
      "(- 1 :: int) < 0" "(2 :: int) \<noteq> 0" "\<not> waitpid_ret ?os < 0"
    by (simp_all add: all_fine_def MAP_FAILED_def)
  have h': "mmap_ret ?os' \<noteq> MAP_FAILED" "0 < fork_ret ?os'" "execlp_ret ?os' = Exec_Returns (- 1) 2"
      "\<not> waitpid_ret ?os' < 0"
    by (simp_all add: all_fine_def MAP_FAILED_def)
  from exec_failure_reported [OF h, of "''this-binary-does-not-exist-xyzzy''" "[]" fresh linux_wait]
       exec_failure_reported [OF h'(1-3) h(4,5) h'(4), of "''this-binary-does-not-exist-xyzzy''" "[]" fresh linux_wait]
  show ?thesis by (simp add: make_error_code_def)
qed

text \<open>
  C6. If the allocation fails, \<open>run\<close> returns the captured \<open>errno\<close> as a host-OS
  error and \<open>mmap\<close> is the only system call it makes (no fork); if the fork fails,
  it returns the captured \<open>errno\<close> without waiting; if \<open>waitpid\<close> fails, it returns
  the captured \<open>errno\<close>. In none of the three does the wait status play a part: the
  only call that follows the failed one is the release of the cell.
\<close>

theorem run_os_failures:
  "(mmap_ret os = MAP_FAILED \<longrightarrow>
      fst (run W program args os st) = Returns (make_error_code (mmap_errno os))
      \<and> calls (snd (run W program args os st)) = calls st @ [Mmap 4])
   \<and> (mmap_ret os \<noteq> MAP_FAILED \<and> fork_ret os < 0 \<longrightarrow>
      fst (run W program args os st) = Returns (make_error_code (fork_errno os))
      \<and> calls (snd (run W program args os st))
          = calls st @ [Mmap 4, Fork]
              @ (if mmap_ret os \<noteq> nullptr then [Munmap (mmap_ret os) 8] else []))
   \<and> (mmap_ret os \<noteq> MAP_FAILED \<and> 0 < fork_ret os \<and> waitpid_ret os < 0 \<longrightarrow>
      fst (run W program args os st) = Returns (make_error_code (waitpid_errno os))
      \<and> calls (snd (run W program args os st))
          = calls st @ [Mmap 4, Fork, Waitpid (fork_ret os)]
              @ (if mmap_ret os \<noteq> nullptr then [Munmap (mmap_ret os) 8] else []))"
  by (simp add: run_def run_spawn_mmap_failed run_spawn_fork_failed run_spawn_wait_failed
        Exec_Failure_dtor_def munmap_def)

theorem run_os_failures_witness:
  "fst (run linux_wait ''true'' [] (all_fine\<lparr>mmap_ret := MAP_FAILED, mmap_errno := 12\<rparr>) fresh)
     = Returns \<lparr>ec_value = 12, ec_category = generic_category\<rparr>
   \<and> calls (snd (run linux_wait ''true'' [] (all_fine\<lparr>mmap_ret := MAP_FAILED, mmap_errno := 12\<rparr>) fresh))
     = [Mmap 4]
   \<and> fst (run linux_wait ''true'' [] (all_fine\<lparr>fork_ret := - 1, fork_errno := 11\<rparr>) fresh)
     = Returns \<lparr>ec_value = 11, ec_category = generic_category\<rparr>
   \<and> calls (snd (run linux_wait ''true'' [] (all_fine\<lparr>fork_ret := - 1, fork_errno := 11\<rparr>) fresh))
     = [Mmap 4, Fork, Munmap 0x7f0000001000 8]
   \<and> fst (run linux_wait ''true'' [] (all_fine\<lparr>waitpid_ret := - 1, waitpid_errno := 4\<rparr>) fresh)
     = Returns \<lparr>ec_value = 4, ec_category = generic_category\<rparr>
   \<and> calls (snd (run linux_wait ''true'' [] (all_fine\<lparr>waitpid_ret := - 1, waitpid_errno := 4\<rparr>) fresh))
     = [Mmap 4, Fork, Waitpid 1234, Munmap 0x7f0000001000 8]"
  using run_os_failures [of "all_fine\<lparr>mmap_ret := MAP_FAILED, mmap_errno := 12\<rparr>" linux_wait "''true''" "[]" fresh]
        run_os_failures [of "all_fine\<lparr>fork_ret := - 1, fork_errno := 11\<rparr>" linux_wait "''true''" "[]" fresh]
        run_os_failures [of "all_fine\<lparr>waitpid_ret := - 1, waitpid_errno := 4\<rparr>" linux_wait "''true''" "[]" fresh]
  by (simp add: all_fine_def fresh_def MAP_FAILED_def nullptr_def make_error_code_def)

lemma run_parent_returns:
  assumes "mmap_ret os \<noteq> MAP_FAILED" and "fork_ret os \<noteq> 0"
  shows "\<exists>r st'. run W program args os st = (Returns r, Exec_Failure_dtor \<lparr>val = mmap_ret os\<rparr> st')
           \<and> releases (calls st') = releases (calls st)"
proof (cases "fork_ret os < 0")
  case True
  let ?st' = "st\<lparr>shm := (shm st)(mmap_ret os \<mapsto> 0), errno := fork_errno os,
                 calls := calls st @ [Mmap 4, Fork]\<rparr>"
  from assms True
  have "run W program args os st
      = (Returns (make_error_code (fork_errno os)), Exec_Failure_dtor \<lparr>val = mmap_ret os\<rparr> ?st')"
    by (simp add: run_def run_spawn_fork_failed)
  moreover have "releases (calls ?st') = releases (calls st)"
    by (simp add: releases_def)
  ultimately show ?thesis by blast
next
  case False
  with assms have pos: "0 < fork_ret os" by simp
  show ?thesis
  proof (cases "waitpid_ret os < 0")
    case True
    let ?st' = "st\<lparr>shm := (shm st)(mmap_ret os \<mapsto> channel os), errno := waitpid_errno os,
                   calls := calls st @ [Mmap 4, Fork, Waitpid (fork_ret os)]\<rparr>"
    from assms pos True
    have "run W program args os st
        = (Returns (make_error_code (waitpid_errno os)), Exec_Failure_dtor \<lparr>val = mmap_ret os\<rparr> ?st')"
      by (simp add: run_def run_spawn_wait_failed)
    moreover have "releases (calls ?st') = releases (calls st)"
      by (simp add: releases_def)
    ultimately show ?thesis by blast
  next
    case False
    let ?st' = "st\<lparr>shm := (shm st)(mmap_ret os \<mapsto> channel os),
                   calls := calls st @ [Mmap 4, Fork, Waitpid (fork_ret os)]\<rparr>"
    have "load (val \<lparr>val = mmap_ret os\<rparr>) ?st' = Some (channel os)"
      by (simp add: load_def)
    from returns_after_wait [OF this, of W "waitpid_wstatus os"]
    obtain r where "run_interpret W \<lparr>val = mmap_ret os\<rparr> (waitpid_wstatus os) ?st'
        = (Returns r, Exec_Failure_dtor \<lparr>val = mmap_ret os\<rparr> ?st')" by blast
    moreover have "releases (calls ?st') = releases (calls st)"
      by (simp add: releases_def)
    ultimately show ?thesis
      using assms pos False by (auto simp: run_after_wait)
  qed
qed

text \<open>
  C3. On every return path of the parent after a successful allocation (fork failure,
  \<open>waitpid\<close> failure, or any classified outcome) \<open>run\<close> returns, and the cell it
  allocated is released exactly once before it does; when the allocation fails, \<open>run\<close>
  returns without any release. The address of a new mapping is not null, as POSIX
  guarantees when \<open>mmap\<close> chooses the address.
\<close>

theorem exec_failure_released:
  assumes "fork_ret os \<noteq> 0" and "mmap_ret os \<noteq> nullptr"
  shows "(mmap_ret os \<noteq> MAP_FAILED \<longrightarrow>
            (\<exists>r. fst (run W program args os st) = Returns r)
            \<and> releases (calls (snd (run W program args os st)))
                = releases (calls st) @ [Munmap (mmap_ret os) 8]
            \<and> shm (snd (run W program args os st)) (mmap_ret os) = None)
       \<and> (mmap_ret os = MAP_FAILED \<longrightarrow>
            (\<exists>r. fst (run W program args os st) = Returns r)
            \<and> releases (calls (snd (run W program args os st))) = releases (calls st))"
proof (cases "mmap_ret os = MAP_FAILED")
  case True
  then show ?thesis
    by (simp add: run_def run_spawn_mmap_failed releases_def)
next
  case False
  from run_parent_returns [OF False assms(1), of W program args st]
  obtain r st' where "run W program args os st = (Returns r, Exec_Failure_dtor \<lparr>val = mmap_ret os\<rparr> st')"
    and "releases (calls st') = releases (calls st)" by blast
  with False dtor_releases [OF assms(2), of st'] show ?thesis by simp
qed

theorem exec_failure_released_witness:
  "fst (run linux_wait ''true'' [] all_fine fresh) = Returns ok
   \<and> calls (snd (run linux_wait ''true'' [] all_fine fresh))
       = [Mmap 4, Fork, Waitpid 1234, Munmap 0x7f0000001000 8]
   \<and> releases (calls (snd (run linux_wait ''true'' [] all_fine fresh)))
       = [Munmap 0x7f0000001000 8]
   \<and> releases (calls (snd (run linux_wait ''true'' []
         (all_fine\<lparr>mmap_ret := MAP_FAILED, mmap_errno := 12\<rparr>) fresh))) = []"
proof -
  have h: "fork_ret all_fine \<noteq> 0" "mmap_ret all_fine \<noteq> nullptr" "mmap_ret all_fine \<noteq> MAP_FAILED"
    by (simp_all add: all_fine_def nullptr_def MAP_FAILED_def)
  let ?os = "all_fine\<lparr>mmap_ret := MAP_FAILED, mmap_errno := 12\<rparr>"
  have h': "fork_ret ?os \<noteq> 0" "mmap_ret ?os \<noteq> nullptr" "mmap_ret ?os = MAP_FAILED"
    by (simp_all add: all_fine_def nullptr_def MAP_FAILED_def)
  have run1: "run linux_wait ''true'' [] all_fine fresh
      = (Returns ok, fresh\<lparr>calls := [Mmap 4, Fork, Waitpid 1234, Munmap 0x7f0000001000 8]\<rparr>)"
    by (simp add: run_def run_spawn_def run_interpret_def sys_defs child_def return_run_def
          Exec_Failure_dtor_def all_fine_def fresh_def MAP_FAILED_def nullptr_def linux_wait_def)
  from exec_failure_released [OF h(1,2), of linux_wait "''true''" "[]" fresh]
       exec_failure_released [OF h'(1,2), of linux_wait "''true''" "[]" fresh] h(3) h'(3) run1
  show ?thesis by (simp add: all_fine_def fresh_def releases_def)
qed

text \<open>
  C10. In the child, the assertion of line 106 is never reached when \<open>execlp\<close> behaves
  as POSIX says (it replaces the process image or returns a negative value): the child
  either is the executed program, with the channel left at 0, or stores \<open>errno\<close> into
  the channel and exits with status 1.
\<close>

theorem assert_unreachable:
  assumes "posix_execlp (execlp_ret os)"
  shows "fst (child program args os exec_failure st) \<noteq> Assert_Fails
     \<and> (mmap_ret os \<noteq> MAP_FAILED \<and> fork_ret os = 0 \<longrightarrow>
          fst (run W program args os st) = Execed \<or> fst (run W program args os st) = Exits 1)
     \<and> (execlp_ret os = Image_Replaced \<longrightarrow>
          child program args os exec_failure st = (Execed, st))
     \<and> (execlp_ret os = Exec_Returns r e \<and> val exec_failure \<in> dom (shm st) \<longrightarrow>
          child program args os exec_failure st
            = (Exits 1, st\<lparr>shm := (shm st)(val exec_failure \<mapsto> e), errno := e\<rparr>))
     \<and> (execlp_ret os = Image_Replaced \<and> mmap_ret os \<noteq> MAP_FAILED \<and> fork_ret os = 0 \<longrightarrow>
          fst (run W program args os st) = Execed
          \<and> load (mmap_ret os) (snd (run W program args os st)) = Some 0)
     \<and> (execlp_ret os = Exec_Returns r e \<and> mmap_ret os \<noteq> MAP_FAILED \<and> fork_ret os = 0 \<longrightarrow>
          fst (run W program args os st) = Exits 1
          \<and> load (mmap_ret os) (snd (run W program args os st)) = Some e)"
proof -
  have 1: "fst (child program args os exec_failure st) \<noteq> Assert_Fails"
    using assms
    by (cases "execlp_ret os") (auto simp: child_def store_def Let_def split: option.splits)
  have 3: "execlp_ret os = Image_Replaced \<longrightarrow>
      child program args os exec_failure st = (Execed, st)"
    by (simp add: child_def)
  have 4: "execlp_ret os = Exec_Returns r e \<and> val exec_failure \<in> dom (shm st) \<longrightarrow>
      child program args os exec_failure st
        = (Exits 1, st\<lparr>shm := (shm st)(val exec_failure \<mapsto> e), errno := e\<rparr>)"
    using assms by (auto simp: child_def store_def Let_def)
  have 5: "execlp_ret os = Image_Replaced \<and> mmap_ret os \<noteq> MAP_FAILED \<and> fork_ret os = 0 \<longrightarrow>
      fst (run W program args os st) = Execed
      \<and> load (mmap_ret os) (snd (run W program args os st)) = Some 0"
    by (simp add: run_def run_spawn_in_child child_def load_def)
  have 6: "execlp_ret os = Exec_Returns r e \<and> mmap_ret os \<noteq> MAP_FAILED \<and> fork_ret os = 0 \<longrightarrow>
      fst (run W program args os st) = Exits 1
      \<and> load (mmap_ret os) (snd (run W program args os st)) = Some e"
    using assms by (auto simp: run_def run_spawn_in_child child_def store_def load_def Let_def)
  have 2: "mmap_ret os \<noteq> MAP_FAILED \<and> fork_ret os = 0 \<longrightarrow>
      fst (run W program args os st) = Execed \<or> fst (run W program args os st) = Exits 1"
    using assms
    by (cases "execlp_ret os")
       (auto simp: run_def run_spawn_in_child child_def store_def Let_def split: option.splits)
  from 1 2 3 4 5 6 show ?thesis by blast
qed

theorem assert_unreachable_witness:
  "posix_execlp (execlp_ret (all_fine\<lparr>fork_ret := 0, execlp_ret := Exec_Returns (- 1) 13\<rparr>))
   \<and> fst (run linux_wait ''/etc/passwd'' [] (all_fine\<lparr>fork_ret := 0, execlp_ret := Exec_Returns (- 1) 13\<rparr>) fresh)
       = Exits 1
   \<and> load 0x7f0000001000
        (snd (run linux_wait ''/etc/passwd'' [] (all_fine\<lparr>fork_ret := 0, execlp_ret := Exec_Returns (- 1) 13\<rparr>) fresh))
       = Some 13
   \<and> posix_execlp (execlp_ret (all_fine\<lparr>fork_ret := 0\<rparr>))
   \<and> fst (run linux_wait ''true'' [] (all_fine\<lparr>fork_ret := 0\<rparr>) fresh) = Execed"
proof -
  let ?os = "all_fine\<lparr>fork_ret := 0, execlp_ret := Exec_Returns (- 1) 13\<rparr>"
  let ?os' = "all_fine\<lparr>fork_ret := 0\<rparr>"
  have h: "posix_execlp (execlp_ret ?os)" and h': "posix_execlp (execlp_ret ?os')"
    by (simp_all add: all_fine_def)
  have m: "execlp_ret ?os = Exec_Returns (- 1) 13 \<and> mmap_ret ?os \<noteq> MAP_FAILED \<and> fork_ret ?os = 0"
    "execlp_ret ?os' = Image_Replaced \<and> mmap_ret ?os' \<noteq> MAP_FAILED \<and> fork_ret ?os' = 0"
    "mmap_ret ?os = 0x7f0000001000"
    by (simp_all add: all_fine_def MAP_FAILED_def)
  from assert_unreachable [OF h, where r = "- 1" and e = 13 and program = "''/etc/passwd''"
         and args = "[]" and exec_failure = "\<lparr>val = nullptr\<rparr>" and st = fresh and W = linux_wait]
       assert_unreachable [OF h', where r = 0 and e = 0 and program = "''true''"
         and args = "[]" and exec_failure = "\<lparr>val = nullptr\<rparr>" and st = fresh and W = linux_wait]
       h h' m
  show ?thesis by (simp del: posix_execlp.simps)
qed

lemma assert_reached_otherwise:
  "execlp_ret os = Exec_Returns r e \<Longrightarrow> 0 \<le> r \<Longrightarrow>
     fst (child program args os exec_failure st) = Assert_Fails"
  by (simp add: child_def)

lemma dtor_cout:
  "Exec_Failure_dtor exec_failure (st\<lparr>cout := c\<rparr>) = (Exec_Failure_dtor exec_failure st)\<lparr>cout := c\<rparr>"
  by (simp add: Exec_Failure_dtor_def munmap_def)









lemma linux_killed_signal_nonzero:
  "WIFSIGNALED linux_wait s \<longrightarrow> WTERMSIG linux_wait s \<noteq> 0"
  by (auto simp: linux_wait_def)


end
